theory Spec2Isabelle
  imports Complex_Main
begin

section \<open>The dipole localisation script \<open>eeg_dipole.py\<close>\<close>

text \<open>
  The script is orchestration over the MNE library: it parses options, loads one input
  representation, optionally cuts epochs, estimates a noise covariance, builds an inverse
  operator and applies it. The model below follows \<open>main\<close> line by line from line 75 on,
  on an already parsed \<open>Namespace\<close> (the record \<open>args\<close>). Lines 65 to 73 (usage, parsing
  and the option processing of the module \<open>common\<close>) come before and are not modelled.

  \<^item> Library objects are symbolic values that record how they were produced.
  \<^item> The library is a parameter (the record \<open>lib\<close>): it decides which calls raise, what
    \<open>bool(x)\<close> is for its objects, which events it finds and which sample index a time has.
  \<^item> Every Python exception is a value \<open>(error, line)\<close> stored in the state; the state
    keeps the local variables of \<open>main\<close> and the trace of library calls made so far.
  \<^item> Python floats are modelled as reals: the script only tests them for zero and passes
    them on (\<open>nan\<close> and rounding are outside the model).
\<close>

subsection \<open>Constants and the parsed command line\<close>

definition DSL_METHODS :: "string list" where
  "DSL_METHODS = [''dSPM'', ''MNE'', ''sLORETA'', ''eLORETA'']"

definition INPUT_TYPES :: "string list" where
  "INPUT_TYPES = [''raw'', ''epochs'', ''evokeds'']"

text \<open>
  Modelled from the spec: \<open>use_first_as_default\<close> lives in the module \<open>common\<close>, which is
  not among the source files. The spec says that the argument plumbing provides the
  first value of the list as a fallback and that the listed values are the selectors; the
  pair is (choices, default).
\<close>

definition use_first_as_default :: "string list \<Rightarrow> string list \<times> string" where
  "use_first_as_default options = (options, hd options)"

text \<open>
  The \<open>Namespace\<close> that \<open>parse_args\<close> returns. An option that was not given is \<open>None\<close>,
  except where the parser declares a default. The fields \<open>jobs\<close>, \<open>output\<close> and \<open>gzip\<close>
  are declared by the option groups of \<open>common\<close> and are taken as they come.
  The fields \<open>begin\<close>, \<open>end\<close>, \<open>output\<close> and \<open>method\<close> of the source are \<open>begin_t\<close>,
  \<open>end_t\<close>, \<open>output_stem\<close> and \<open>method_name\<close> here.
\<close>

record args =
  input :: string
  type :: string
  fwd_file :: string
  method_name :: string
  begin_t :: "real option"
  end_t :: "real option"
  noise_file :: "string option"
  noise_begin :: "real option"
  noise_end :: "real option"
  stim :: "string option"
  annotated :: "string option"
  event_begin :: real
  event_end :: real
  jobs :: "int option"
  output_stem :: string
  gzip :: bool

text \<open>
  \<open>make_argument_parser\<close>, as the namespace it yields for a command line that gives only
  the input file and the required forward file: every declared default, \<open>None\<close> elsewhere.
\<close>

definition make_argument_parser :: "string \<Rightarrow> string \<Rightarrow> args" where
  "make_argument_parser inp fwdf =
     \<lparr> input = inp,
       type = snd (use_first_as_default INPUT_TYPES),
       fwd_file = fwdf,
       method_name = snd (use_first_as_default DSL_METHODS),
       begin_t = None, end_t = None,
       noise_file = None, noise_begin = None, noise_end = None,
       stim = None, annotated = None,
       event_begin = - 0.2, event_end = 0.5,
       jobs = None, output_stem = [], gzip = False \<rparr>"

text \<open>The values \<open>-t/--type\<close> accepts: the choices of the option.\<close>

definition type_choices :: "string list" where
  "type_choices = fst (use_first_as_default INPUT_TYPES)"

subsection \<open>Python values\<close>

datatype error = AttributeError | ValueError | UnboundLocalError | LibraryError string

text \<open>Truth values of the option values: \<open>None\<close>, the empty string and zero are false.\<close>

definition str_bool :: "string option \<Rightarrow> bool" where
  "str_bool x = (case x of None \<Rightarrow> False | Some s \<Rightarrow> s \<noteq> [])"

definition float_bool :: "real option \<Rightarrow> bool" where
  "float_bool x = (case x of None \<Rightarrow> False | Some v \<Rightarrow> v \<noteq> 0)"

text \<open>\<open>args.noise_begin or 0\<close> and \<open>args.jobs or 1\<close>.\<close>

definition float_or :: "real option \<Rightarrow> real \<Rightarrow> real" where
  "float_or x d = (case x of None \<Rightarrow> d | Some v \<Rightarrow> if v \<noteq> 0 then v else d)"

definition int_or :: "int option \<Rightarrow> int \<Rightarrow> int" where
  "int_or x d = (case x of None \<Rightarrow> d | Some v \<Rightarrow> if v \<noteq> 0 then v else d)"

text \<open>
  Events are the rows of an \<open>n \<times> 3\<close> integer array (sample, previous value, code).
  The truth value of an array is that of its only element; an array with more than one
  element raises \<open>ValueError\<close>; the empty array is false (NumPy before 2.2).
\<close>

type_synonym events = "(int \<times> int \<times> int) list"

type_synonym event_ids = "(string \<times> int) list"

definition elements :: "events \<Rightarrow> int list" where
  "elements evs = concat (map (\<lambda>(s, p, c). [s, p, c]) evs)"

definition ndarray_bool :: "int list \<Rightarrow> error + bool" where
  "ndarray_bool xs =
     (case xs of [] \<Rightarrow> Inr False
      | [x] \<Rightarrow> Inr (x \<noteq> 0)
      | _ \<Rightarrow> Inl ValueError)"

subsection \<open>Library objects\<close>

text \<open>
  A recording is read from a file (with or without \<open>preload\<close>), and is then given the
  average reference, copied or cropped. Epochs are read from a file or cut from a
  recording with events, event ids, \<open>tmin\<close>, \<open>tmax\<close> and \<open>picks\<close>. The value of the variable
  \<open>evoked\<close> is what \<open>read_evokeds\<close> returns or the average of Epochs. A covariance is that
  of a recording, or that of Epochs up to \<open>tmax\<close>; both carry \<open>n_jobs\<close>.
\<close>

datatype raw =
    Raw string bool
  | Referenced raw
  | Copied raw
  | Cropped raw real "real option"

datatype epochs =
    Epochs_read string
  | Epochs raw events "event_ids option" int int string

datatype evoked =
    Evokeds_read string
  | Averaged epochs

datatype obj = RawObj raw | EpochsObj epochs | EvokedObj evoked

datatype fwd = Forward string

datatype cov =
    Raw_covariance raw int
  | Covariance epochs real int

datatype info = Info obj

datatype inv_op = Inverse_operator info fwd cov

record kwargs =
  kw_start :: int
  kw_stop :: int
  kw_lambda2 :: real
  kw_method :: string

datatype stc = Source_estimate obj inv_op kwargs

datatype name_opt = Compress bool | Ext_none

datatype call =
    Read_raw string bool
  | Set_eeg_reference raw
  | Read_epochs string
  | Read_evokeds string
  | Find_events raw string
  | Time_as_index obj "real option" "real option"
  | Epochs_init raw events "event_ids option" int int string
  | Average epochs
  | Read_forward_solution string
  | Copy raw
  | Crop raw real "real option"
  | Compute_raw_covariance raw int
  | Compute_covariance epochs real int
  | Make_inverse_operator info fwd cov
  | Apply_inverse evoked inv_op kwargs
  | Apply_inverse_epochs epochs inv_op kwargs
  | Apply_inverse_raw raw inv_op kwargs
  | Make_output_filename string string name_opt
  | Write_inverse_operator string inv_op
  | Save stc string

text \<open>
  What the library and the files decide. \<open>raises\<close> gives the exception a call raises, if
  any; \<open>obj_bool\<close> is \<open>bool(x)\<close> of a library object (its \<open>__len__\<close> or \<open>__bool__\<close>, which
  may raise); the other fields are the data the calls return. \<open>make_output_filename\<close> is
  a function of \<open>common\<close>, taken as a parameter.
\<close>

record lib =
  raises :: "call \<Rightarrow> error option"
  obj_bool :: "obj \<Rightarrow> error + bool"
  find_events :: "raw \<Rightarrow> string \<Rightarrow> events"
  time_as_index :: "obj \<Rightarrow> real option \<Rightarrow> int"
  make_output_filename :: "string \<Rightarrow> string \<Rightarrow> name_opt \<Rightarrow> string"

subsection \<open>The state of \<open>main\<close>\<close>

text \<open>
  The local variables of \<open>main\<close>, the library calls made so far, and the exception that
  ended the run with the line that raised it. In a variable, \<open>None\<close> is Python's \<open>None\<close> or
  "not bound yet"; \<open>fwd\<close>, \<open>noise_cov\<close>, \<open>inv_op\<close>, \<open>snr\<close>, \<open>lambda2\<close> and \<open>window\<close> are never
  assigned \<open>None\<close>, so for them it is "not bound", and reading them then raises
  \<open>UnboundLocalError\<close>. \<open>window\<close> is the pair \<open>begin, end\<close> of line 123.
\<close>

record st =
  raw :: "raw option"
  epochs :: "epochs option"
  evoked :: "evoked option"
  events :: "events option"
  event_ids :: "event_ids option"
  fwd :: "fwd option"
  noise_raw :: "raw option"
  noise_cov :: "cov option"
  info :: "info option"
  inv_op :: "inv_op option"
  snr :: "int option"
  lambda2 :: "real option"
  window :: "(int \<times> int) option"
  stc :: "stc option"
  calls :: "call list"
  exc :: "(error \<times> nat) option"

definition init :: st where
  "init = \<lparr> raw = None, epochs = None, evoked = None, events = None, event_ids = None,
            fwd = None, noise_raw = None, noise_cov = None, info = None, inv_op = None,
            snr = None, lambda2 = None, window = None, stc = None, calls = [],
            exc = None \<rparr>"

definition raise :: "error \<Rightarrow> nat \<Rightarrow> st \<Rightarrow> st" where
  "raise e l s = s\<lparr>exc := Some (e, l)\<rparr>"

text \<open>A library call at line \<open>l\<close>: it is recorded, then it raises or the run goes on.\<close>

definition lib_call :: "lib \<Rightarrow> nat \<Rightarrow> call \<Rightarrow> (st \<Rightarrow> st) \<Rightarrow> st \<Rightarrow> st" where
  "lib_call L l c k s =
     (let s' = s\<lparr>calls := calls s @ [c]\<rparr>
      in case raises L c of Some e \<Rightarrow> raise e l s' | None \<Rightarrow> k s')"

text \<open>
  The truth test of a variable that holds \<open>None\<close> or a library object: the object when it
  is there and true, \<open>None\<close> when the test is false, or the exception \<open>bool(x)\<close> raises.
\<close>

definition truthy :: "lib \<Rightarrow> ('a \<Rightarrow> obj) \<Rightarrow> 'a option \<Rightarrow> error + 'a option" where
  "truthy L wrap x =
     (case x of None \<Rightarrow> Inr None
      | Some v \<Rightarrow> (case obj_bool L (wrap v) of
            Inl e \<Rightarrow> Inl e
          | Inr b \<Rightarrow> Inr (if b then Some v else None)))"

text \<open>
  The expression \<open>raw or epochs or evoked\<close> of lines 118 and 123: the first operand that
  is true, and the last operand, untested, when the first two are false.
\<close>

definition raw_or_epochs_or_evoked :: "lib \<Rightarrow> st \<Rightarrow> error + obj option" where
  "raw_or_epochs_or_evoked L s =
     (case truthy L RawObj (raw s) of
        Inl e \<Rightarrow> Inl e
      | Inr (Some r) \<Rightarrow> Inr (Some (RawObj r))
      | Inr None \<Rightarrow>
          (case truthy L EpochsObj (epochs s) of
             Inl e \<Rightarrow> Inl e
           | Inr (Some ep) \<Rightarrow> Inr (Some (EpochsObj ep))
           | Inr None \<Rightarrow> Inr (map_option EvokedObj (evoked s))))"

subsection \<open>\<open>apply_inverse_operator\<close> (lines 55 to 62)\<close>

text \<open>
  The value returned is stored in \<open>stc\<close>, as the caller does at line 124; when no branch
  is taken the function returns \<open>None\<close>.
\<close>

definition apply_inverse_operator ::
  "lib \<Rightarrow> inv_op \<Rightarrow> raw option \<Rightarrow> epochs option \<Rightarrow> evoked option \<Rightarrow> kwargs \<Rightarrow> st \<Rightarrow> st" where
  "apply_inverse_operator L op r ep ev k s =
     (case truthy L EvokedObj ev of
        Inl e \<Rightarrow> raise e 57 s
      | Inr (Some v) \<Rightarrow>
          lib_call L 58 (Apply_inverse v op k)
            (\<lambda>s. s\<lparr>stc := Some (Source_estimate (EvokedObj v) op k)\<rparr>) s
      | Inr None \<Rightarrow>
          (case truthy L EpochsObj ep of
             Inl e \<Rightarrow> raise e 59 s
           | Inr (Some x) \<Rightarrow>
               lib_call L 60 (Apply_inverse_epochs x op k)
                 (\<lambda>s. s\<lparr>stc := Some (Source_estimate (EpochsObj x) op k)\<rparr>) s
           | Inr None \<Rightarrow>
               (case truthy L RawObj r of
                  Inl e \<Rightarrow> raise e 61 s
                | Inr (Some x) \<Rightarrow>
                    lib_call L 62 (Apply_inverse_raw x op k)
                      (\<lambda>s. s\<lparr>stc := Some (Source_estimate (RawObj x) op k)\<rparr>) s
                | Inr None \<Rightarrow> s\<lparr>stc := None\<rparr>)))"

subsection \<open>\<open>main\<close>, stage by stage\<close>

text \<open>Lines 75 to 83: the loader chosen by \<open>args.type\<close>.\<close>

definition load_input :: "lib \<Rightarrow> args \<Rightarrow> st \<Rightarrow> st" where
  "load_input L a s0 =
     (let s = s0\<lparr>raw := None, epochs := None, evoked := None\<rparr> in
      if type a = ''raw'' then
        lib_call L 78 (Read_raw (input a) True)
          (\<lambda>s. lib_call L 79 (Set_eeg_reference (Raw (input a) True))
                  (\<lambda>s. s\<lparr>raw := Some (Referenced (Raw (input a) True))\<rparr>)
                  (s\<lparr>raw := Some (Raw (input a) True)\<rparr>)) s
      else if type a = ''epochs'' then
        lib_call L 81 (Read_epochs (input a))
          (\<lambda>s. s\<lparr>epochs := Some (Epochs_read (input a))\<rparr>) s
      else if type a = ''evoked'' then
        lib_call L 83 (Read_evokeds (input a))
          (\<lambda>s. s\<lparr>evoked := Some (Evokeds_read (input a))\<rparr>) s
      else s)"

text \<open>
  Lines 95 and 96: the window is converted to sample indices with the recording's time
  base, and the indices are what \<open>mne.Epochs\<close> receives as \<open>tmin\<close> and \<open>tmax\<close>.
\<close>

definition build_epochs :: "lib \<Rightarrow> args \<Rightarrow> raw \<Rightarrow> events \<Rightarrow> st \<Rightarrow> st" where
  "build_epochs L a r evs s =
     lib_call L 95 (Time_as_index (RawObj r) (Some (event_begin a)) (Some (event_end a)))
       (\<lambda>s. let b = time_as_index L (RawObj r) (Some (event_begin a));
                e = time_as_index L (RawObj r) (Some (event_end a))
            in lib_call L 96 (Epochs_init r evs (event_ids s) b e ''data'')
                 (\<lambda>s. s\<lparr>epochs := Some (Epochs r evs (event_ids s) b e ''data'')\<rparr>) s) s"

text \<open>Line 94: \<open>if events:\<close>, on \<open>None\<close> or on the array of events.\<close>

definition segment :: "lib \<Rightarrow> args \<Rightarrow> raw \<Rightarrow> st \<Rightarrow> st" where
  "segment L a r s =
     (case events s of
        None \<Rightarrow> s
      | Some evs \<Rightarrow>
          (case ndarray_bool (elements evs) of
             Inl e \<Rightarrow> raise e 94 s
           | Inr b \<Rightarrow> if b then build_epochs L a r evs s else s))"

text \<open>
  Lines 86 to 92. In annotation mode the argument \<open>args.annotations\<close> is evaluated before
  the call; the parser declares \<open>--annotated\<close> and no option named \<open>annotations\<close>, so the
  attribute lookup raises and \<open>events_from_annotations\<close> is not called.
\<close>

definition detect_events :: "lib \<Rightarrow> args \<Rightarrow> raw \<Rightarrow> st \<Rightarrow> st" where
  "detect_events L a r s =
     (if str_bool (stim a) then
        lib_call L 87 (Find_events r (the (stim a)))
          (\<lambda>s. segment L a r
                  (s\<lparr>events := Some (find_events L r (the (stim a))), event_ids := None\<rparr>)) s
      else if str_bool (annotated a) then raise AttributeError 90 s
      else segment L a r (s\<lparr>events := None\<rparr>))"

text \<open>Line 85: \<open>if raw and not epochs:\<close>.\<close>

definition segmentation :: "lib \<Rightarrow> args \<Rightarrow> st \<Rightarrow> st" where
  "segmentation L a s =
     (case truthy L RawObj (raw s) of
        Inl e \<Rightarrow> raise e 85 s
      | Inr None \<Rightarrow> s
      | Inr (Some r) \<Rightarrow>
          (case truthy L EpochsObj (epochs s) of
             Inl e \<Rightarrow> raise e 85 s
           | Inr (Some ep) \<Rightarrow> s
           | Inr None \<Rightarrow> detect_events L a r s))"

text \<open>Lines 98 and 99: \<open>if epochs and not evoked: evoked = epochs.average()\<close>.\<close>

definition averaging :: "lib \<Rightarrow> args \<Rightarrow> st \<Rightarrow> st" where
  "averaging L a s =
     (case truthy L EpochsObj (epochs s) of
        Inl e \<Rightarrow> raise e 98 s
      | Inr None \<Rightarrow> s
      | Inr (Some ep) \<Rightarrow>
          (case truthy L EvokedObj (evoked s) of
             Inl e \<Rightarrow> raise e 98 s
           | Inr (Some ev) \<Rightarrow> s
           | Inr None \<Rightarrow>
               lib_call L 99 (Average ep) (\<lambda>s. s\<lparr>evoked := Some (Averaged ep)\<rparr>) s))"

text \<open>Line 101.\<close>

definition forward_solution :: "lib \<Rightarrow> args \<Rightarrow> st \<Rightarrow> st" where
  "forward_solution L a s =
     lib_call L 101 (Read_forward_solution (fwd_file a))
       (\<lambda>s. s\<lparr>fwd := Some (Forward (fwd_file a))\<rparr>) s"

text \<open>
  Lines 103 to 108: the noise recording is the noise file, or a copy of the input
  recording when a bound is true, or \<open>None\<close>. \<open>raw.copy()\<close> on \<open>None\<close> raises.
\<close>

definition noise_recording :: "lib \<Rightarrow> args \<Rightarrow> st \<Rightarrow> st" where
  "noise_recording L a s =
     (if str_bool (noise_file a) then
        lib_call L 104 (Read_raw (the (noise_file a)) False)
          (\<lambda>s. s\<lparr>noise_raw := Some (Raw (the (noise_file a)) False)\<rparr>) s
      else if float_bool (noise_begin a) \<or> float_bool (noise_end a) then
        (case raw s of
           None \<Rightarrow> raise AttributeError 106 s
         | Some r \<Rightarrow> lib_call L 106 (Copy r) (\<lambda>s. s\<lparr>noise_raw := Some (Copied r)\<rparr>) s)
      else s\<lparr>noise_raw := None\<rparr>)"

text \<open>
  Lines 110 and 111: \<open>if noise_raw and args.noise_begin or args.noise_end:\<close>, which
  Python reads as \<open>(noise_raw and args.noise_begin) or args.noise_end\<close>.
\<close>

definition noise_crop :: "lib \<Rightarrow> args \<Rightarrow> st \<Rightarrow> st" where
  "noise_crop L a s =
     (case truthy L RawObj (noise_raw s) of
        Inl e \<Rightarrow> raise e 110 s
      | Inr t \<Rightarrow>
          if (t \<noteq> None \<and> float_bool (noise_begin a)) \<or> float_bool (noise_end a) then
            (case noise_raw s of
               None \<Rightarrow> raise AttributeError 111 s
             | Some r \<Rightarrow>
                 lib_call L 111 (Crop r (float_or (noise_begin a) 0) (noise_end a))
                   (\<lambda>s. s\<lparr>noise_raw :=
                            Some (Cropped r (float_or (noise_begin a) 0) (noise_end a))\<rparr>) s)
          else s)"

text \<open>Lines 113 to 116; when neither test is true \<open>noise_cov\<close> stays unbound.\<close>

definition noise_covariance :: "lib \<Rightarrow> args \<Rightarrow> st \<Rightarrow> st" where
  "noise_covariance L a s =
     (case truthy L RawObj (noise_raw s) of
        Inl e \<Rightarrow> raise e 113 s
      | Inr (Some r) \<Rightarrow>
          lib_call L 114 (Compute_raw_covariance r (int_or (jobs a) 1))
            (\<lambda>s. s\<lparr>noise_cov := Some (Raw_covariance r (int_or (jobs a) 1))\<rparr>) s
      | Inr None \<Rightarrow>
          (case truthy L EpochsObj (epochs s) of
             Inl e \<Rightarrow> raise e 115 s
           | Inr (Some ep) \<Rightarrow>
               lib_call L 116 (Compute_covariance ep (- 0.01) (int_or (jobs a) 1))
                 (\<lambda>s. s\<lparr>noise_cov := Some (Covariance ep (- 0.01) (int_or (jobs a) 1))\<rparr>) s
           | Inr None \<Rightarrow> s))"

text \<open>
  Lines 118 and 119. The attribute \<open>info\<close> of \<open>None\<close> raises; the arguments of
  \<open>make_inverse_operator\<close> are evaluated in order, and an unbound name raises.
\<close>

definition inverse_operator :: "lib \<Rightarrow> args \<Rightarrow> st \<Rightarrow> st" where
  "inverse_operator L a s =
     (case raw_or_epochs_or_evoked L s of
        Inl e \<Rightarrow> raise e 118 s
      | Inr None \<Rightarrow> raise AttributeError 118 s
      | Inr (Some x) \<Rightarrow>
          (let s1 = s\<lparr>info := Some (Info x)\<rparr> in
           case fwd s1 of
             None \<Rightarrow> raise UnboundLocalError 119 s1
           | Some f \<Rightarrow>
               (case noise_cov s1 of
                  None \<Rightarrow> raise UnboundLocalError 119 s1
                | Some c \<Rightarrow>
                    lib_call L 119 (Make_inverse_operator (Info x) f c)
                      (\<lambda>s. s\<lparr>inv_op := Some (Inverse_operator (Info x) f c)\<rparr>) s1)))"

text \<open>The truth value of \<open>epochs or evoked\<close> in line 121.\<close>

definition epochs_or_evoked :: "lib \<Rightarrow> st \<Rightarrow> error + bool" where
  "epochs_or_evoked L s =
     (case truthy L EpochsObj (epochs s) of
        Inl e \<Rightarrow> Inl e
      | Inr (Some ep) \<Rightarrow> Inr True
      | Inr None \<Rightarrow>
          (case truthy L EvokedObj (evoked s) of
             Inl e \<Rightarrow> Inl e
           | Inr (Some ev) \<Rightarrow> Inr True
           | Inr None \<Rightarrow> Inr False))"

text \<open>
  Lines 121 to 125: \<open>snr = 3 if epochs or evoked else 1\<close>, \<open>lambda2 = 1 / snr ** 2\<close>, the
  analysis window on the time base of \<open>raw or epochs or evoked\<close>, and the application.
\<close>

definition inverse_application :: "lib \<Rightarrow> args \<Rightarrow> st \<Rightarrow> st" where
  "inverse_application L a s =
     (case epochs_or_evoked L s of
        Inl e \<Rightarrow> raise e 121 s
      | Inr t \<Rightarrow>
          (let n = (if t then 3 else 1);
               l2 = 1 / (of_int n) ^ 2;
               s1 = s\<lparr>snr := Some n, lambda2 := Some l2\<rparr>
           in case raw_or_epochs_or_evoked L s1 of
                Inl e \<Rightarrow> raise e 123 s1
              | Inr None \<Rightarrow> raise AttributeError 123 s1
              | Inr (Some x) \<Rightarrow>
                  lib_call L 123 (Time_as_index x (begin_t a) (end_t a))
                    (\<lambda>s. let b = time_as_index L x (begin_t a);
                             e = time_as_index L x (end_t a);
                             s2 = s\<lparr>window := Some (b, e)\<rparr>
                         in case inv_op s2 of
                              None \<Rightarrow> raise UnboundLocalError 124 s2
                            | Some op \<Rightarrow>
                                apply_inverse_operator L op (raw s2) (epochs s2) (evoked s2)
                                  \<lparr>kw_start = b, kw_stop = e, kw_lambda2 = l2,
                                   kw_method = method_name a\<rparr> s2) s1))"

text \<open>Lines 127 to 131; \<open>stc.save\<close> on \<open>None\<close> raises.\<close>

definition output_files :: "lib \<Rightarrow> args \<Rightarrow> st \<Rightarrow> st" where
  "output_files L a s =
     (let inv_name = Make_output_filename (output_stem a) ''inv'' (Compress (gzip a));
          inv_file = make_output_filename L (output_stem a) ''inv'' (Compress (gzip a));
          stc_name = Make_output_filename (output_stem a) (method_name a) Ext_none;
          stc_file = make_output_filename L (output_stem a) (method_name a) Ext_none
      in lib_call L 127 inv_name
           (\<lambda>s. case inv_op s of
                   None \<Rightarrow> raise UnboundLocalError 128 s
                 | Some op \<Rightarrow>
                     lib_call L 128 (Write_inverse_operator inv_file op)
                       (\<lambda>s. lib_call L 130 stc_name
                               (\<lambda>s. case stc s of
                                       None \<Rightarrow> raise AttributeError 131 s
                                     | Some t \<Rightarrow> lib_call L 131 (Save t stc_file) (\<lambda>s. s) s)
                               s) s) s)"

text \<open>
  The stages in order. A stage runs only while no exception is pending; each state on
  the way has a name, and \<open>main\<close> is the state in which the run ends.
\<close>

definition step :: "(st \<Rightarrow> st) \<Rightarrow> st \<Rightarrow> st" where
  "step f s = (if exc s = None then f s else s)"

definition loaded :: "lib \<Rightarrow> args \<Rightarrow> st" where
  "loaded L a = step (load_input L a) init"

definition segmented :: "lib \<Rightarrow> args \<Rightarrow> st" where
  "segmented L a = step (segmentation L a) (loaded L a)"

definition averaged :: "lib \<Rightarrow> args \<Rightarrow> st" where
  "averaged L a = step (averaging L a) (segmented L a)"

definition with_forward :: "lib \<Rightarrow> args \<Rightarrow> st" where
  "with_forward L a = step (forward_solution L a) (averaged L a)"

definition with_noise_raw :: "lib \<Rightarrow> args \<Rightarrow> st" where
  "with_noise_raw L a = step (noise_recording L a) (with_forward L a)"

definition with_crop :: "lib \<Rightarrow> args \<Rightarrow> st" where
  "with_crop L a = step (noise_crop L a) (with_noise_raw L a)"

definition with_noise_cov :: "lib \<Rightarrow> args \<Rightarrow> st" where
  "with_noise_cov L a = step (noise_covariance L a) (with_crop L a)"

definition with_inv_op :: "lib \<Rightarrow> args \<Rightarrow> st" where
  "with_inv_op L a = step (inverse_operator L a) (with_noise_cov L a)"

definition applied :: "lib \<Rightarrow> args \<Rightarrow> st" where
  "applied L a = step (inverse_application L a) (with_inv_op L a)"

definition main :: "lib \<Rightarrow> args \<Rightarrow> st" where
  "main L a = step (output_files L a) (applied L a)"

subsection \<open>Reading the claims\<close>

text \<open>A representation is active when the variable holds an object and the object is true.\<close>

definition active :: "lib \<Rightarrow> obj option \<Rightarrow> bool" where
  "active L x = (case x of None \<Rightarrow> False | Some v \<Rightarrow> obj_bool L v = Inr True)"

text \<open>The first active representation of a list, in the order of the list.\<close>

fun first_active :: "lib \<Rightarrow> obj option list \<Rightarrow> obj option" where
  "first_active L [] = None"
| "first_active L (x # xs) = (if active L x then x else first_active L xs)"

text \<open>
  The two orders of priority. With evoked first, the choice is the first active
  representation of evoked, epochs, raw. With raw first, raw and epochs are tested and
  evoked is taken as it is when neither is active.
\<close>

definition evoked_first :: "lib \<Rightarrow> st \<Rightarrow> obj option" where
  "evoked_first L s =
     first_active L [map_option EvokedObj (evoked s), map_option EpochsObj (epochs s),
                     map_option RawObj (raw s)]"

definition raw_first :: "lib \<Rightarrow> st \<Rightarrow> obj option" where
  "raw_first L s =
     (case first_active L [map_option RawObj (raw s), map_option EpochsObj (epochs s)] of
        Some x \<Rightarrow> Some x
      | None \<Rightarrow> map_option EvokedObj (evoked s))"

text \<open>
  A library on which every call succeeds and every object is true, with a time base of
  1000 samples per second; the same library on a recording with one and with two
  trigger events; and a command line that gives the two file names only.
\<close>

definition lib_ok :: lib where
  "lib_ok = \<lparr> raises = (\<lambda>c. None), obj_bool = (\<lambda>x. Inr True),
              find_events = (\<lambda>r ch. []),
              time_as_index = (\<lambda>x t. case t of None \<Rightarrow> 0 | Some v \<Rightarrow> \<lfloor>v * 1000\<rfloor>),
              make_output_filename = (\<lambda>stem name opt. stem @ ''.'' @ name) \<rparr>"

definition lib_one_event :: lib where
  "lib_one_event = lib_ok\<lparr>find_events := (\<lambda>r ch. [(1000, 0, 1)])\<rparr>"

definition lib_two_events :: lib where
  "lib_two_events = lib_ok\<lparr>find_events := (\<lambda>r ch. [(1000, 0, 1), (3000, 0, 1)])\<rparr>"

definition cmdline :: args where
  "cmdline = make_argument_parser ''in.fif'' ''fwd.fif''"

text \<open>Command lines for the noise options and for the type \<open>epochs\<close>.\<close>

definition cmdline_noise_zero :: args where
  "cmdline_noise_zero = cmdline\<lparr>noise_file := Some ''noise.fif'', noise_begin := Some 0\<rparr>"

definition cmdline_noise_empty :: args where
  "cmdline_noise_empty = cmdline\<lparr>type := ''epochs'', noise_file := Some []\<rparr>"

definition cmdline_noise_end :: args where
  "cmdline_noise_end = cmdline\<lparr>noise_file := Some ''noise.fif'', noise_end := Some 5\<rparr>"

definition cmdline_epochs :: args where
  "cmdline_epochs = cmdline\<lparr>type := ''epochs''\<rparr>"

definition cmdline_epochs_zero :: args where
  "cmdline_epochs_zero = cmdline\<lparr>type := ''epochs'', noise_begin := Some 0\<rparr>"

definition cmdline_epochs_end :: args where
  "cmdline_epochs_end = cmdline\<lparr>type := ''epochs'', noise_end := Some 5\<rparr>"

subsection \<open>Unfolding the model\<close>

lemmas stage_defs = load_input_def segmentation_def detect_events_def segment_def
  build_epochs_def averaging_def forward_solution_def noise_recording_def noise_crop_def
  noise_covariance_def inverse_operator_def inverse_application_def
  apply_inverse_operator_def output_files_def raw_or_epochs_or_evoked_def
  epochs_or_evoked_def

lemmas state_defs = main_def applied_def with_inv_op_def with_noise_cov_def with_crop_def
  with_noise_raw_def with_forward_def averaged_def segmented_def loaded_def step_def

lemmas input_defs = cmdline_def make_argument_parser_def use_first_as_default_def
  type_choices_def INPUT_TYPES_def DSL_METHODS_def lib_ok_def lib_one_event_def
  lib_two_events_def init_def

lemmas py_defs = lib_call_def raise_def truthy_def str_bool_def float_bool_def float_or_def
  int_or_def ndarray_bool_def elements_def

subsection \<open>What each stage leaves alone\<close>

text \<open>
  Each stage changes few variables. The lemmas below say, for every state of the run,
  which variables it inherits from the state before it.
\<close>

lemmas splits = option.splits sum.splits if_splits

lemma apply_inverse_operator_frame [simp]:
  "raw (apply_inverse_operator L op r ep ev k s) = raw s"
  "epochs (apply_inverse_operator L op r ep ev k s) = epochs s"
  "evoked (apply_inverse_operator L op r ep ev k s) = evoked s"
  "events (apply_inverse_operator L op r ep ev k s) = events s"
  "noise_raw (apply_inverse_operator L op r ep ev k s) = noise_raw s"
  "noise_cov (apply_inverse_operator L op r ep ev k s) = noise_cov s"
  "info (apply_inverse_operator L op r ep ev k s) = info s"
  "lambda2 (apply_inverse_operator L op r ep ev k s) = lambda2 s"
  "window (apply_inverse_operator L op r ep ev k s) = window s"
  by (simp_all add: apply_inverse_operator_def lib_call_def raise_def Let_def split: splits)

lemma loaded_frame [simp]:
  "events (loaded L a) = None"
  "noise_raw (loaded L a) = None"
  "noise_cov (loaded L a) = None"
  "info (loaded L a) = None"
  "lambda2 (loaded L a) = None"
  "window (loaded L a) = None"
  "stc (loaded L a) = None"
  by (simp_all add: loaded_def step_def load_input_def init_def lib_call_def raise_def Let_def
      split: splits)

lemma segmented_frame [simp]:
  "raw (segmented L a) = raw (loaded L a)"
  "evoked (segmented L a) = evoked (loaded L a)"
  "noise_raw (segmented L a) = noise_raw (loaded L a)"
  "noise_cov (segmented L a) = noise_cov (loaded L a)"
  "info (segmented L a) = info (loaded L a)"
  "lambda2 (segmented L a) = lambda2 (loaded L a)"
  "window (segmented L a) = window (loaded L a)"
  "stc (segmented L a) = stc (loaded L a)"
  by (simp_all add: segmented_def step_def segmentation_def detect_events_def segment_def
      build_epochs_def lib_call_def raise_def Let_def split: splits)

lemma averaged_frame [simp]:
  "raw (averaged L a) = raw (segmented L a)"
  "epochs (averaged L a) = epochs (segmented L a)"
  "events (averaged L a) = events (segmented L a)"
  "noise_raw (averaged L a) = noise_raw (segmented L a)"
  "noise_cov (averaged L a) = noise_cov (segmented L a)"
  "info (averaged L a) = info (segmented L a)"
  "lambda2 (averaged L a) = lambda2 (segmented L a)"
  "window (averaged L a) = window (segmented L a)"
  "stc (averaged L a) = stc (segmented L a)"
  by (simp_all add: averaged_def step_def averaging_def lib_call_def raise_def Let_def
      split: splits)

lemma with_forward_frame [simp]:
  "raw (with_forward L a) = raw (averaged L a)"
  "epochs (with_forward L a) = epochs (averaged L a)"
  "evoked (with_forward L a) = evoked (averaged L a)"
  "events (with_forward L a) = events (averaged L a)"
  "noise_raw (with_forward L a) = noise_raw (averaged L a)"
  "noise_cov (with_forward L a) = noise_cov (averaged L a)"
  "info (with_forward L a) = info (averaged L a)"
  "lambda2 (with_forward L a) = lambda2 (averaged L a)"
  "window (with_forward L a) = window (averaged L a)"
  "stc (with_forward L a) = stc (averaged L a)"
  by (simp_all add: with_forward_def step_def forward_solution_def lib_call_def raise_def Let_def
      split: splits)

lemma with_noise_raw_frame [simp]:
  "raw (with_noise_raw L a) = raw (with_forward L a)"
  "epochs (with_noise_raw L a) = epochs (with_forward L a)"
  "evoked (with_noise_raw L a) = evoked (with_forward L a)"
  "events (with_noise_raw L a) = events (with_forward L a)"
  "noise_cov (with_noise_raw L a) = noise_cov (with_forward L a)"
  "info (with_noise_raw L a) = info (with_forward L a)"
  "lambda2 (with_noise_raw L a) = lambda2 (with_forward L a)"
  "window (with_noise_raw L a) = window (with_forward L a)"
  "stc (with_noise_raw L a) = stc (with_forward L a)"
  by (simp_all add: with_noise_raw_def step_def noise_recording_def lib_call_def raise_def Let_def
      split: splits)

lemma with_crop_frame [simp]:
  "raw (with_crop L a) = raw (with_noise_raw L a)"
  "epochs (with_crop L a) = epochs (with_noise_raw L a)"
  "evoked (with_crop L a) = evoked (with_noise_raw L a)"
  "events (with_crop L a) = events (with_noise_raw L a)"
  "noise_cov (with_crop L a) = noise_cov (with_noise_raw L a)"
  "info (with_crop L a) = info (with_noise_raw L a)"
  "lambda2 (with_crop L a) = lambda2 (with_noise_raw L a)"
  "window (with_crop L a) = window (with_noise_raw L a)"
  "stc (with_crop L a) = stc (with_noise_raw L a)"
  by (simp_all add: with_crop_def step_def noise_crop_def lib_call_def raise_def Let_def
      split: splits)

lemma with_noise_cov_frame [simp]:
  "raw (with_noise_cov L a) = raw (with_crop L a)"
  "epochs (with_noise_cov L a) = epochs (with_crop L a)"
  "evoked (with_noise_cov L a) = evoked (with_crop L a)"
  "events (with_noise_cov L a) = events (with_crop L a)"
  "noise_raw (with_noise_cov L a) = noise_raw (with_crop L a)"
  "info (with_noise_cov L a) = info (with_crop L a)"
  "lambda2 (with_noise_cov L a) = lambda2 (with_crop L a)"
  "window (with_noise_cov L a) = window (with_crop L a)"
  "stc (with_noise_cov L a) = stc (with_crop L a)"
  by (simp_all add: with_noise_cov_def step_def noise_covariance_def lib_call_def raise_def Let_def
      split: splits)

lemma with_inv_op_frame [simp]:
  "raw (with_inv_op L a) = raw (with_noise_cov L a)"
  "epochs (with_inv_op L a) = epochs (with_noise_cov L a)"
  "evoked (with_inv_op L a) = evoked (with_noise_cov L a)"
  "events (with_inv_op L a) = events (with_noise_cov L a)"
  "noise_raw (with_inv_op L a) = noise_raw (with_noise_cov L a)"
  "noise_cov (with_inv_op L a) = noise_cov (with_noise_cov L a)"
  "lambda2 (with_inv_op L a) = lambda2 (with_noise_cov L a)"
  "window (with_inv_op L a) = window (with_noise_cov L a)"
  "stc (with_inv_op L a) = stc (with_noise_cov L a)"
  by (simp_all add: with_inv_op_def step_def inverse_operator_def lib_call_def raise_def Let_def
      split: splits)

lemma applied_frame [simp]:
  "raw (applied L a) = raw (with_inv_op L a)"
  "epochs (applied L a) = epochs (with_inv_op L a)"
  "evoked (applied L a) = evoked (with_inv_op L a)"
  "events (applied L a) = events (with_inv_op L a)"
  "noise_raw (applied L a) = noise_raw (with_inv_op L a)"
  "noise_cov (applied L a) = noise_cov (with_inv_op L a)"
  "info (applied L a) = info (with_inv_op L a)"
  by (simp_all add: applied_def step_def inverse_application_def lib_call_def raise_def Let_def
      split: splits)

lemma main_frame [simp]:
  "raw (main L a) = raw (applied L a)"
  "epochs (main L a) = epochs (applied L a)"
  "evoked (main L a) = evoked (applied L a)"
  "events (main L a) = events (applied L a)"
  "noise_raw (main L a) = noise_raw (applied L a)"
  "noise_cov (main L a) = noise_cov (applied L a)"
  "info (main L a) = info (applied L a)"
  "lambda2 (main L a) = lambda2 (applied L a)"
  "window (main L a) = window (applied L a)"
  "stc (main L a) = stc (applied L a)"
  by (simp_all add: main_def step_def output_files_def lib_call_def raise_def Let_def
      split: splits)

lemma active_truthy:
  "active L (map_option w x) \<longleftrightarrow> (\<exists>v. truthy L w x = Inr (Some v))"
  by (auto simp: active_def truthy_def split: splits)

lemma epochs_or_evoked_active:
  "epochs_or_evoked L s = Inr t \<Longrightarrow>
   t = (active L (map_option EpochsObj (epochs s)) \<or> active L (map_option EvokedObj (evoked s)))"
  by (auto simp: epochs_or_evoked_def active_truthy split: splits)

subsection \<open>A pending exception ends the run\<close>

lemma step_stuck: "exc s \<noteq> None \<Longrightarrow> step f s = s"
  by (auto simp: step_def)

lemma stuck_applied: "exc (applied L a) \<noteq> None \<Longrightarrow> main L a = applied L a"
  by (simp add: main_def step_stuck)

lemma stuck_with_inv_op: "exc (with_inv_op L a) \<noteq> None \<Longrightarrow> main L a = with_inv_op L a"
  by (simp add: applied_def step_stuck stuck_applied)

lemma stuck_with_noise_cov: "exc (with_noise_cov L a) \<noteq> None \<Longrightarrow> main L a = with_noise_cov L a"
  by (simp add: with_inv_op_def step_stuck stuck_with_inv_op)

lemma stuck_with_crop: "exc (with_crop L a) \<noteq> None \<Longrightarrow> main L a = with_crop L a"
  by (simp add: with_noise_cov_def step_stuck stuck_with_noise_cov)

lemma stuck_with_noise_raw: "exc (with_noise_raw L a) \<noteq> None \<Longrightarrow> main L a = with_noise_raw L a"
  by (simp add: with_crop_def step_stuck stuck_with_crop)

lemma stuck_with_forward: "exc (with_forward L a) \<noteq> None \<Longrightarrow> main L a = with_forward L a"
  by (simp add: with_noise_raw_def step_stuck stuck_with_noise_raw)

lemma stuck_averaged: "exc (averaged L a) \<noteq> None \<Longrightarrow> main L a = averaged L a"
  by (simp add: with_forward_def step_stuck stuck_with_forward)

lemma stuck_segmented: "exc (segmented L a) \<noteq> None \<Longrightarrow> main L a = segmented L a"
  by (simp add: averaged_def step_stuck stuck_averaged)

lemma stuck_loaded: "exc (loaded L a) \<noteq> None \<Longrightarrow> main L a = loaded L a"
  by (simp add: segmented_def step_stuck stuck_segmented)

subsection \<open>The inverse application, for every library\<close>

lemma applied_lambda2:
  assumes "lambda2 (applied L a) = Some v"
  shows "v = (if active L (map_option EpochsObj (epochs (with_inv_op L a))) \<or>
                 active L (map_option EvokedObj (evoked (with_inv_op L a)))
              then 1 / 9 else 1)"
  using assms
  by (auto simp add: applied_def step_def inverse_application_def lib_call_def raise_def Let_def
      dest!: epochs_or_evoked_active  split: splits)

lemma truthy_SomeD: "truthy L w x = Inr (Some v) \<Longrightarrow> x = Some v"
  by (auto simp: truthy_def split: splits)

lemma apply_inverse_operator_stc:
  assumes "stc (apply_inverse_operator L op r ep ev k s) = Some (Source_estimate x op' k')"
    and "stc s = None"
  shows "k' = k \<and> op' = op \<and>
         first_active L [map_option EvokedObj ev, map_option EpochsObj ep, map_option RawObj r] = Some x"
  using assms
  by (auto simp add: apply_inverse_operator_def lib_call_def raise_def active_truthy Let_def
      dest: truthy_SomeD split: splits)

lemma applied_stc:
  assumes "stc (applied L a) = Some (Source_estimate x op k)"
  shows "lambda2 (applied L a) = Some (kw_lambda2 k) \<and> evoked_first L (with_inv_op L a) = Some x"
  using assms
  by (auto simp add: applied_def step_def inverse_application_def lib_call_def raise_def Let_def evoked_first_def
      dest!: apply_inverse_operator_stc  split: splits)

subsection \<open>Events and segmentation, for every library\<close>

lemma ndarray_bool_events: "evs \<noteq> [] \<Longrightarrow> ndarray_bool (elements evs) = Inl ValueError"
  by (cases evs) (auto simp: ndarray_bool_def elements_def split: list.splits)

lemma loaded_one_representation:
  "raw (loaded L a) = Some r \<Longrightarrow> epochs (loaded L a) = None"
  by (auto simp: loaded_def step_def load_input_def init_def lib_call_def raise_def Let_def
      split: splits)

lemma segmented_events:
  assumes "events (segmented L a) = Some evs" and "evs \<noteq> []"
  shows "exc (segmented L a) = Some (ValueError, 94) \<and> epochs (segmented L a) = None"
proof (cases "raw (loaded L a)")
  case None
  with assms(1) show ?thesis
    by (simp add: segmented_def step_def segmentation_def truthy_def split: splits)
next
  case (Some r)
  then have "epochs (loaded L a) = None"
    by (rule loaded_one_representation)
  with Some assms show ?thesis
    by (auto simp: segmented_def step_def segmentation_def detect_events_def segment_def build_epochs_def
        truthy_def lib_call_def raise_def Let_def ndarray_bool_events split: splits)
qed

lemma raw_without_event_options:
  assumes "type a = ''raw''" and "stim a = None" and "annotated a = None"
  shows "epochs (segmented L a) = None"
  using assms
  by (auto simp: segmented_def loaded_def step_def load_input_def init_def segmentation_def
      detect_events_def segment_def truthy_def lib_call_def raise_def str_bool_def Let_def
      split: splits)

lemma epochs_type_epochs:
  assumes "type a = ''epochs''" and "epochs (segmented L a) = Some ep"
  shows "ep = Epochs_read (input a)"
  using assms
  by (auto simp: segmented_def loaded_def step_def load_input_def init_def segmentation_def
      truthy_def lib_call_def raise_def Let_def split: splits)

subsection \<open>Noise, for every library\<close>

lemma no_noise_options:
  assumes "noise_file a = None" and "noise_begin a = None" and "noise_end a = None"
  shows "noise_raw (with_crop L a) = None"
proof -
  have "noise_raw (with_noise_raw L a) = None"
    using assms
    by (simp add: with_noise_raw_def step_def noise_recording_def str_bool_def float_bool_def)
  with assms show ?thesis
    by (simp add: with_crop_def step_def noise_crop_def truthy_def float_bool_def)
qed

lemma unbound_noise_cov_fails:
  "noise_cov (with_noise_cov L a) = None \<Longrightarrow> exc (with_inv_op L a) \<noteq> None"
  by (auto simp: with_inv_op_def step_def inverse_operator_def raise_def Let_def split: splits)

subsection \<open>The choice of a representation, for every library\<close>

lemma step_exc_None: "exc (step f s) = None \<Longrightarrow> exc s = None"
  by (auto simp: step_def split: if_splits)

lemma loaded_not_raw: "type a \<noteq> ''raw'' \<Longrightarrow> raw (loaded L a) = None"
  by (simp add: loaded_def step_def load_input_def init_def lib_call_def raise_def Let_def
      split: splits)

lemma raw_or_epochs_or_evoked_raw_first:
  "raw_or_epochs_or_evoked L s = Inr y \<Longrightarrow> raw_first L s = y"
  by (auto simp: raw_or_epochs_or_evoked_def raw_first_def active_def truthy_def split: splits)

lemma raw_first_cong:
  "raw s = raw s' \<Longrightarrow> epochs s = epochs s' \<Longrightarrow> evoked s = evoked s' \<Longrightarrow>
   raw_first L s = raw_first L s'"
  by (auto simp: raw_first_def split: option.splits)

lemma evoked_first_cong:
  "raw s = raw s' \<Longrightarrow> epochs s = epochs s' \<Longrightarrow> evoked s = evoked s' \<Longrightarrow>
   evoked_first L s = evoked_first L s'"
  by (simp add: evoked_first_def)

lemma with_inv_op_info:
  assumes "info (with_inv_op L a) = Some i"
  shows "map_option Info (raw_first L (with_noise_cov L a)) = Some i"
proof -
  from assms have "info (inverse_operator L a (with_noise_cov L a)) = Some i"
    by (simp add: with_inv_op_def step_def split: if_splits)
  then show ?thesis
    by (auto simp: inverse_operator_def lib_call_def raise_def Let_def
        dest!: raw_or_epochs_or_evoked_raw_first split: splits)
qed

lemma applied_window:
  assumes "window (applied L a) = Some w"
  shows "\<exists>x. raw_first L (with_inv_op L a) = Some x \<and>
             w = (time_as_index L x (begin_t a), time_as_index L x (end_t a))"
proof -
  from assms have "window (inverse_application L a (with_inv_op L a)) = Some w"
    by (simp add: applied_def step_def split: if_splits)
  then show ?thesis
    by (auto simp: inverse_application_def lib_call_def raise_def Let_def
        raw_first_cong [of "_\<lparr>snr := _, lambda2 := _\<rparr>" "with_inv_op L a"]
        dest!: raw_or_epochs_or_evoked_raw_first split: splits)
qed

section \<open>The claims\<close>

subsection \<open>Input resolution\<close>

text \<open>
  C1. The claim: for each of the three type selectors exactly the matching loader is
  invoked and the other two representations stay unset. The third selector the option
  accepts is \<open>evokeds\<close>, while \<open>main\<close> compares \<open>args.type\<close> with \<open>evoked\<close>: on the third
  selector no loader is invoked, all three representations are \<open>None\<close> after input
  resolution, and the run ends at line 118 on the attribute \<open>info\<close> of \<open>None\<close>.
\<close>

theorem third_selector_loads_nothing:
  "INPUT_TYPES ! 2 = ''evokeds'' \<and>
   type_choices = [''raw'', ''epochs'', ''evokeds''] \<and>
   loaded lib_ok (cmdline\<lparr>type := ''evokeds''\<rparr>) = init \<and>
   main lib_ok (cmdline\<lparr>type := ''evokeds''\<rparr>) =
     init\<lparr>fwd := Some (Forward ''fwd.fif''),
          calls := [Read_forward_solution ''fwd.fif''],
          exc := Some (AttributeError, 118)\<rparr>"
  by (simp add: state_defs stage_defs input_defs py_defs Let_def)

subsection \<open>Event detection and segmentation\<close>

text \<open>
  C2. The claim: in annotation mode the regular expression is matched against the
  annotations, giving events and a label-to-code mapping from which Epochs are built.
  The code reads \<open>args.annotations\<close>, an attribute the namespace does not have: the run
  ends at line 90 with \<open>AttributeError\<close>, after the recording was loaded and before any
  event detection.
\<close>

theorem annotation_mode_raises:
  "main lib_ok (cmdline\<lparr>annotated := Some ''stimulus''\<rparr>) =
     init\<lparr>raw := Some (Referenced (Raw ''in.fif'' True)),
          calls := [Read_raw ''in.fif'' True, Set_eeg_reference (Raw ''in.fif'' True)],
          exc := Some (AttributeError, 90)\<rparr>"
  by (simp add: state_defs stage_defs input_defs py_defs Let_def)

text \<open>
  C3. The claim: whenever events were detected, Epochs are built with the window
  \<open>[event-begin, event-end]\<close> in seconds around each event. With one trigger event found,
  the test \<open>if events:\<close> of line 94 is on an array of three elements and raises
  \<open>ValueError\<close>: no Epochs are built. And lines 95 and 96, where they run, pass sample
  indices as \<open>tmin\<close> and \<open>tmax\<close>: on a time base of 1000 samples per second the default
  window of -0.2 s to 0.5 s is handed over as -200 and 500.
\<close>

theorem detected_events_raise:
  "main lib_one_event (cmdline\<lparr>stim := Some ''STI 014''\<rparr>) =
     init\<lparr>raw := Some (Referenced (Raw ''in.fif'' True)),
          events := Some [(1000, 0, 1)],
          calls := [Read_raw ''in.fif'' True, Set_eeg_reference (Raw ''in.fif'' True),
                    Find_events (Referenced (Raw ''in.fif'' True)) ''STI 014''],
          exc := Some (ValueError, 94)\<rparr> \<and>
   epochs (build_epochs lib_ok cmdline (Raw ''in.fif'' True) [(1000, 0, 1)] init) =
     Some (Epochs (Raw ''in.fif'' True) [(1000, 0, 1)] None (- 200) 500 ''data'')"
  by (simp add: state_defs stage_defs input_defs py_defs Let_def)

text \<open>
  C9. Whenever event detection has yielded more than one event (the variable \<open>events\<close>
  holds an array of two or more rows, which only the trigger-channel mode on a recording
  produces), the test \<open>if events:\<close> of line 94 raises \<open>ValueError\<close> and the run ends
  there with no Epochs.
\<close>

theorem trigger_events_raise:
  assumes "events (main L a) = Some evs" and "1 < length evs"
  shows "exc (main L a) = Some (ValueError, 94) \<and> epochs (main L a) = None"
proof -
  from assms(1) have e: "events (segmented L a) = Some evs" by simp
  from assms(2) have n: "evs \<noteq> []" by auto
  from segmented_events [OF e n] show ?thesis
    by (simp add: stuck_segmented)
qed

theorem trigger_events_raise_witness:
  "(let s = main lib_two_events (cmdline\<lparr>stim := Some ''STI 014''\<rparr>) in
      events s = Some [(1000, 0, 1), (3000, 0, 1)] \<and>
      1 < length [(1000 :: int, 0 :: int, 1 :: int), (3000, 0, 1)] \<and>
      exc s = Some (ValueError, 94) \<and> epochs s = None)"
proof -
  have e: "events (main lib_two_events (cmdline\<lparr>stim := Some ''STI 014''\<rparr>)) =
             Some [(1000, 0, 1), (3000, 0, 1)]"
    by (simp add: state_defs stage_defs input_defs py_defs Let_def)
  have n: "1 < length [(1000 :: int, 0 :: int, 1 :: int), (3000, 0, 1)]" by simp
  show ?thesis
    unfolding Let_def using e n trigger_events_raise [OF e n] by blast
qed

text \<open>
  C7. With type \<open>raw\<close> and none of \<open>--stim\<close>, \<open>--annotated\<close>, \<open>--noise-file\<close>,
  \<open>--noise-begin\<close>, \<open>--noise-end\<close>, no run produces Epochs or binds the noise covariance,
  and every run fails. When the library raises nothing on the way and the recording is
  true, the failure is the unbound \<open>noise_cov\<close> in the call of line 119, which is after the
  segmentation of lines 85 to 96.
\<close>

theorem raw_without_events_fails_at_operator:
  assumes "type a = ''raw''" and "stim a = None" and "annotated a = None"
    and "noise_file a = None" and "noise_begin a = None" and "noise_end a = None"
  shows "epochs (main L a) = None \<and> noise_cov (main L a) = None \<and> exc (main L a) \<noteq> None \<and>
         (raises L (Read_raw (input a) True) = None \<and>
          raises L (Set_eeg_reference (Raw (input a) True)) = None \<and>
          obj_bool L (RawObj (Referenced (Raw (input a) True))) = Inr True \<and>
          raises L (Read_forward_solution (fwd_file a)) = None
          \<longrightarrow> exc (main L a) = Some (UnboundLocalError, 119))"
proof -
  have ep: "epochs (segmented L a) = None"
    using assms(1-3) by (rule raw_without_event_options)
  have nr: "noise_raw (with_crop L a) = None"
    using assms(4-6) by (rule no_noise_options)
  have nc: "noise_cov (with_noise_cov L a) = None"
    using ep nr
    by (simp add: with_noise_cov_def step_def noise_covariance_def truthy_def)
  have stuck: "main L a = with_inv_op L a"
    using unbound_noise_cov_fails [OF nc] by (rule stuck_with_inv_op)
  have "exc (with_inv_op L a) = Some (UnboundLocalError, 119)"
    if ok: "raises L (Read_raw (input a) True) = None"
      "raises L (Set_eeg_reference (Raw (input a) True)) = None"
      "obj_bool L (RawObj (Referenced (Raw (input a) True))) = Inr True"
      "raises L (Read_forward_solution (fwd_file a)) = None"
  proof -
    have l: "exc (loaded L a) = None \<and> epochs (loaded L a) = None \<and>
             raw (loaded L a) = Some (Referenced (Raw (input a) True))"
      using ok assms(1)
      by (simp add: loaded_def step_def load_input_def init_def lib_call_def Let_def)
    have s: "exc (segmented L a) = None"
      using l ok assms(2,3)
      by (simp add: segmented_def step_def segmentation_def detect_events_def segment_def
          truthy_def str_bool_def)
    have v: "exc (averaged L a) = None"
      using s ep by (simp add: averaged_def step_def averaging_def truthy_def)
    have f: "exc (with_forward L a) = None"
      using v ok by (simp add: with_forward_def step_def forward_solution_def lib_call_def)
    have n: "exc (with_noise_raw L a) = None"
      using f assms(4-6)
      by (simp add: with_noise_raw_def step_def noise_recording_def str_bool_def float_bool_def)
    have "noise_raw (with_noise_raw L a) = None"
      using assms(4-6)
      by (simp add: with_noise_raw_def step_def noise_recording_def str_bool_def float_bool_def)
    with n have c: "exc (with_crop L a) = None"
      using assms(4-6)
      by (simp add: with_crop_def step_def noise_crop_def truthy_def float_bool_def)
    have k: "exc (with_noise_cov L a) = None"
      using c nr ep by (simp add: with_noise_cov_def step_def noise_covariance_def truthy_def)
    show ?thesis
      using k nc l ok
      by (simp add: with_inv_op_def step_def inverse_operator_def raw_or_epochs_or_evoked_def
          truthy_def raise_def Let_def split: option.splits)
  qed
  with ep nc unbound_noise_cov_fails [OF nc] show ?thesis
    by (simp add: stuck)
qed

theorem raw_without_events_fails_at_operator_witness:
  "type cmdline = ''raw'' \<and> stim cmdline = None \<and> annotated cmdline = None \<and>
   noise_file cmdline = None \<and> noise_begin cmdline = None \<and> noise_end cmdline = None \<and>
   epochs (main lib_ok cmdline) = None \<and> noise_cov (main lib_ok cmdline) = None \<and>
   exc (main lib_ok cmdline) = Some (UnboundLocalError, 119)"
proof -
  have h: "type cmdline = ''raw''" "stim cmdline = None" "annotated cmdline = None"
    "noise_file cmdline = None" "noise_begin cmdline = None" "noise_end cmdline = None"
    by (simp_all add: input_defs)
  have ok: "raises lib_ok (Read_raw (input cmdline) True) = None \<and>
          raises lib_ok (Set_eeg_reference (Raw (input cmdline) True)) = None \<and>
          obj_bool lib_ok (RawObj (Referenced (Raw (input cmdline) True))) = Inr True \<and>
          raises lib_ok (Read_forward_solution (fwd_file cmdline)) = None"
    by (simp add: lib_ok_def)
  from raw_without_events_fails_at_operator [OF h, of lib_ok] ok h show ?thesis
    by blast
qed

subsection \<open>Noise covariance\<close>

text \<open>
  C6. With type \<open>epochs\<close> and none of \<open>--noise-file\<close>, \<open>--noise-begin\<close>, \<open>--noise-end\<close>: no
  noise recording exists in any run; a noise covariance, when one is bound, is the one
  computed from the loaded Epochs with \<open>tmax = -0.01\<close>; and it is bound as soon as the
  library raises nothing up to there and the Epochs are true.
\<close>

theorem epochs_baseline_covariance:
  assumes "type a = ''epochs''"
    and "noise_file a = None" and "noise_begin a = None" and "noise_end a = None"
  shows "noise_raw (main L a) = None \<and>
         (\<forall>c. noise_cov (main L a) = Some c \<longrightarrow>
              c = Covariance (Epochs_read (input a)) (- 0.01) (int_or (jobs a) 1)) \<and>
         (raises L (Read_epochs (input a)) = None \<and>
          obj_bool L (EpochsObj (Epochs_read (input a))) = Inr True \<and>
          raises L (Average (Epochs_read (input a))) = None \<and>
          raises L (Read_forward_solution (fwd_file a)) = None \<and>
          raises L (Compute_covariance (Epochs_read (input a)) (- 0.01) (int_or (jobs a) 1)) = None
          \<longrightarrow> noise_cov (main L a) =
                Some (Covariance (Epochs_read (input a)) (- 0.01) (int_or (jobs a) 1)))"
proof -
  have nr: "noise_raw (with_crop L a) = None"
    using assms(2-4) by (rule no_noise_options)
  have ep: "epochs (with_crop L a) = None \<or>
            epochs (with_crop L a) = Some (Epochs_read (input a))"
    using epochs_type_epochs [OF assms(1), of L] by (cases "epochs (segmented L a)") simp_all
  have "c = Covariance (Epochs_read (input a)) (- 0.01) (int_or (jobs a) 1)"
    if "noise_cov (main L a) = Some c" for c
  proof -
    from that have "noise_cov (with_noise_cov L a) = Some c" by simp
    then have "noise_cov (noise_covariance L a (with_crop L a)) = Some c"
      by (simp add: with_noise_cov_def step_def split: if_splits)
    with nr ep show ?thesis
      by (auto simp: noise_covariance_def lib_call_def raise_def Let_def truthy_def
          split: splits)
  qed
  moreover have "noise_cov (main L a) =
                Some (Covariance (Epochs_read (input a)) (- 0.01) (int_or (jobs a) 1))"
    if ok: "raises L (Read_epochs (input a)) = None"
      "obj_bool L (EpochsObj (Epochs_read (input a))) = Inr True"
      "raises L (Average (Epochs_read (input a))) = None"
      "raises L (Read_forward_solution (fwd_file a)) = None"
      "raises L (Compute_covariance (Epochs_read (input a)) (- 0.01) (int_or (jobs a) 1)) = None"
  proof -
    have l: "exc (loaded L a) = None \<and> raw (loaded L a) = None \<and> evoked (loaded L a) = None \<and>
             epochs (loaded L a) = Some (Epochs_read (input a))"
      using ok assms(1)
      by (simp add: loaded_def step_def load_input_def init_def lib_call_def Let_def)
    have s: "exc (segmented L a) = None \<and> epochs (segmented L a) = Some (Epochs_read (input a))"
      using l by (simp add: segmented_def step_def segmentation_def truthy_def)
    have v: "exc (averaged L a) = None"
      using s l ok
      by (simp add: averaged_def step_def averaging_def truthy_def lib_call_def)
    have f: "exc (with_forward L a) = None"
      using v ok by (simp add: with_forward_def step_def forward_solution_def lib_call_def)
    have n: "exc (with_noise_raw L a) = None"
      using f assms(2-4)
      by (simp add: with_noise_raw_def step_def noise_recording_def str_bool_def float_bool_def)
    have "noise_raw (with_noise_raw L a) = None"
      using assms(2-4)
      by (simp add: with_noise_raw_def step_def noise_recording_def str_bool_def float_bool_def)
    with n have c: "exc (with_crop L a) = None"
      using assms(2-4)
      by (simp add: with_crop_def step_def noise_crop_def truthy_def float_bool_def)
    show ?thesis
      using c nr s ok
      by (simp add: with_noise_cov_def step_def noise_covariance_def truthy_def lib_call_def)
  qed
  moreover have "noise_raw (main L a) = None"
    using nr by simp
  ultimately show ?thesis
    by blast
qed

theorem epochs_baseline_covariance_witness:
  "(let a = cmdline\<lparr>type := ''epochs'', jobs := Some 4\<rparr> in
      type a = ''epochs'' \<and> noise_file a = None \<and> noise_begin a = None \<and> noise_end a = None \<and>
      noise_raw (main lib_ok a) = None \<and>
      noise_cov (main lib_ok a) = Some (Covariance (Epochs_read ''in.fif'') (- 0.01) 4))"
proof -
  let ?a = "cmdline\<lparr>type := ''epochs'', jobs := Some 4\<rparr>"
  have h: "type ?a = ''epochs''" "noise_file ?a = None" "noise_begin ?a = None"
    "noise_end ?a = None"
    by (simp_all add: input_defs)
  have ok: "raises lib_ok (Read_epochs (input ?a)) = None \<and>
          obj_bool lib_ok (EpochsObj (Epochs_read (input ?a))) = Inr True \<and>
          raises lib_ok (Average (Epochs_read (input ?a))) = None \<and>
          raises lib_ok (Read_forward_solution (fwd_file ?a)) = None \<and>
          raises lib_ok (Compute_covariance (Epochs_read (input ?a)) (- 0.01) (int_or (jobs ?a) 1)) = None"
    by (simp add: lib_ok_def)
  have v: "input ?a = ''in.fif''" "int_or (jobs ?a) 1 = 4"
    by (simp_all add: input_defs int_or_def)
  from epochs_baseline_covariance [OF h, of lib_ok] ok h show ?thesis
    unfolding Let_def v by blast
qed

text \<open>
  C4. The claim: with \<open>--noise-file\<close> given the covariance comes from that file, and the
  noise recording is cropped if and only if \<open>--noise-begin\<close> or \<open>--noise-end\<close> is present.
  The tests of lines 103, 105 and 110 are truth tests, and zero and the empty string are
  false. With \<open>--noise-begin 0\<close> the bound is present and the recording is not cropped;
  with \<open>--noise-file ""\<close> on an Epochs input the option is given and the covariance is
  computed from the Epochs.
\<close>

theorem noise_options_tested_by_truth:
  "noise_file cmdline_noise_zero = Some ''noise.fif'' \<and>
   noise_begin cmdline_noise_zero = Some 0 \<and>
   calls (with_noise_cov lib_ok cmdline_noise_zero) =
     [Read_raw ''in.fif'' True, Set_eeg_reference (Raw ''in.fif'' True),
      Read_forward_solution ''fwd.fif'', Read_raw ''noise.fif'' False,
      Compute_raw_covariance (Raw ''noise.fif'' False) 1] \<and>
   noise_cov (with_noise_cov lib_ok cmdline_noise_zero) =
     Some (Raw_covariance (Raw ''noise.fif'' False) 1) \<and>
   noise_file cmdline_noise_empty = Some [] \<and>
   noise_cov (with_noise_cov lib_ok cmdline_noise_empty) =
     Some (Covariance (Epochs_read ''in.fif'') (- 0.01) 1)"
  by (simp add: cmdline_noise_zero_def cmdline_noise_empty_def state_defs stage_defs input_defs
      py_defs Let_def)

text \<open>
  C4, as amended. With \<open>--noise-file\<close> given as a non-empty path and a noise recording that
  is true before and after cropping: the only noise covariance a run can bind is that of
  the recording read from that file, never one of Epochs; the recording is cropped exactly
  when \<open>--noise-begin\<close> or \<open>--noise-end\<close> has a value other than zero, from
  \<open>args.noise_begin or 0\<close> to \<open>args.noise_end\<close>; and this covariance is bound in every run
  that gets past the forward solution and in which reading the noise file, the cropping and
  the covariance estimation raise nothing.
\<close>

theorem noise_file_covariance:
  assumes "noise_file a = Some f" and "f \<noteq> []"
    and "obj_bool L (RawObj (Raw f False)) = Inr True"
    and "obj_bool L (RawObj (Cropped (Raw f False) (float_or (noise_begin a) 0) (noise_end a)))
           = Inr True"
  shows "(\<forall>c. noise_cov (main L a) = Some c \<longrightarrow>
            c = Raw_covariance
                  (if float_bool (noise_begin a) \<or> float_bool (noise_end a)
                   then Cropped (Raw f False) (float_or (noise_begin a) 0) (noise_end a)
                   else Raw f False)
                  (int_or (jobs a) 1)) \<and>
         (exc (with_forward L a) = None \<and>
          raises L (Read_raw f False) = None \<and>
          (float_bool (noise_begin a) \<or> float_bool (noise_end a) \<longrightarrow>
             raises L (Crop (Raw f False) (float_or (noise_begin a) 0) (noise_end a)) = None) \<and>
          raises L (Compute_raw_covariance
                      (if float_bool (noise_begin a) \<or> float_bool (noise_end a)
                       then Cropped (Raw f False) (float_or (noise_begin a) 0) (noise_end a)
                       else Raw f False)
                      (int_or (jobs a) 1)) = None
          \<longrightarrow> noise_cov (main L a) =
                Some (Raw_covariance
                        (if float_bool (noise_begin a) \<or> float_bool (noise_end a)
                         then Cropped (Raw f False) (float_or (noise_begin a) 0) (noise_end a)
                         else Raw f False)
                        (int_or (jobs a) 1)))"
proof -
  let ?nr = "if float_bool (noise_begin a) \<or> float_bool (noise_end a)
             then Cropped (Raw f False) (float_or (noise_begin a) 0) (noise_end a)
             else Raw f False"
  have "c = Raw_covariance ?nr (int_or (jobs a) 1)" if "noise_cov (main L a) = Some c" for c
  proof -
    from that have nc: "noise_cov (with_noise_cov L a) = Some c" by simp
    have e3: "exc (with_crop L a) = None"
      using nc by (auto simp: with_noise_cov_def step_def split: if_splits)
    then have e2: "exc (with_noise_raw L a) = None"
      unfolding with_crop_def by (rule step_exc_None)
    then have e1: "exc (with_forward L a) = None"
      unfolding with_noise_raw_def by (rule step_exc_None)
    have nr1: "noise_raw (with_noise_raw L a) = Some (Raw f False)"
      using e1 e2 assms(1,2)
      by (auto simp: with_noise_raw_def step_def noise_recording_def str_bool_def lib_call_def
          raise_def Let_def split: splits)
    have nr2: "noise_raw (with_crop L a) = Some ?nr"
      using e2 e3 nr1 assms(3)
      by (auto simp: with_crop_def step_def noise_crop_def truthy_def lib_call_def raise_def
          Let_def split: splits)
    show ?thesis
      using nc e3 nr2 assms(3,4)
      by (auto simp: with_noise_cov_def step_def noise_covariance_def truthy_def lib_call_def
          raise_def Let_def split: splits)
  qed
  moreover have "noise_cov (main L a) = Some (Raw_covariance ?nr (int_or (jobs a) 1))"
    if e1: "exc (with_forward L a) = None"
      and r: "raises L (Read_raw f False) = None"
      and k: "float_bool (noise_begin a) \<or> float_bool (noise_end a) \<longrightarrow>
             raises L (Crop (Raw f False) (float_or (noise_begin a) 0) (noise_end a)) = None"
      and v: "raises L (Compute_raw_covariance ?nr (int_or (jobs a) 1)) = None"
  proof -
    have n: "exc (with_noise_raw L a) = None \<and>
             noise_raw (with_noise_raw L a) = Some (Raw f False)"
      using e1 r assms(1,2)
      by (simp add: with_noise_raw_def step_def noise_recording_def str_bool_def lib_call_def)
    have c: "exc (with_crop L a) = None \<and> noise_raw (with_crop L a) = Some ?nr"
      using n k assms(3)
      by (simp add: with_crop_def step_def noise_crop_def truthy_def lib_call_def)
    have "noise_cov (with_noise_cov L a) = Some (Raw_covariance ?nr (int_or (jobs a) 1))"
    proof (cases "float_bool (noise_begin a) \<or> float_bool (noise_end a)")
      case True
      with c v assms(4) show ?thesis
        by (simp add: with_noise_cov_def step_def noise_covariance_def truthy_def lib_call_def)
    next
      case False
      with c v assms(3) show ?thesis
        by (simp add: with_noise_cov_def step_def noise_covariance_def truthy_def lib_call_def)
    qed
    then show ?thesis by simp
  qed
  ultimately show ?thesis
    by blast
qed

theorem noise_file_covariance_witness:
  "noise_file cmdline_noise_end = Some ''noise.fif'' \<and>
   exc (with_forward lib_ok cmdline_noise_end) = None \<and>
   noise_cov (main lib_ok cmdline_noise_end) =
     Some (Raw_covariance (Cropped (Raw ''noise.fif'' False) 0 (Some 5)) 1)"
proof -
  have h: "noise_file cmdline_noise_end = Some ''noise.fif''" "''noise.fif'' \<noteq> []"
    "obj_bool lib_ok (RawObj (Raw ''noise.fif'' False)) = Inr True"
    "obj_bool lib_ok (RawObj (Cropped (Raw ''noise.fif'' False)
        (float_or (noise_begin cmdline_noise_end) 0) (noise_end cmdline_noise_end))) = Inr True"
    by (simp_all add: cmdline_noise_end_def input_defs)
  have e: "exc (with_forward lib_ok cmdline_noise_end) = None"
    by (simp add: cmdline_noise_end_def state_defs stage_defs input_defs py_defs Let_def)
  have r: "\<And>c. raises lib_ok c = None"
    by (simp add: lib_ok_def)
  have v: "float_bool (noise_end cmdline_noise_end)"
    "float_or (noise_begin cmdline_noise_end) 0 = 0" "noise_end cmdline_noise_end = Some 5"
    "int_or (jobs cmdline_noise_end) 1 = 1"
    by (simp_all add: cmdline_noise_end_def input_defs float_bool_def float_or_def int_or_def)
  from noise_file_covariance [OF h, THEN conjunct2] e r h(1) show ?thesis
    by (simp add: v float_bool_def)
qed

text \<open>
  C10. The claim: when \<open>--noise-begin\<close> or \<open>--noise-end\<close> is given without a noise file and
  the type is not \<open>raw\<close>, the run raises on copying the absent recording. With type
  \<open>epochs\<close> and \<open>--noise-begin 0\<close> the test of line 105 is false: nothing is copied, no
  exception is raised there, and the covariance is computed from the Epochs.
\<close>

theorem zero_noise_begin_copies_nothing:
  "type cmdline_epochs_zero = ''epochs'' \<and>
   noise_file cmdline_epochs_zero = None \<and>
   noise_begin cmdline_epochs_zero = Some 0 \<and>
   with_noise_cov lib_ok cmdline_epochs_zero =
     init\<lparr>epochs := Some (Epochs_read ''in.fif''),
          evoked := Some (Averaged (Epochs_read ''in.fif'')),
          fwd := Some (Forward ''fwd.fif''),
          noise_cov := Some (Covariance (Epochs_read ''in.fif'') (- 0.01) 1),
          calls := [Read_epochs ''in.fif'', Average (Epochs_read ''in.fif''),
                    Read_forward_solution ''fwd.fif'',
                    Compute_covariance (Epochs_read ''in.fif'') (- 0.01) 1]\<rparr>"
  by (simp add: cmdline_epochs_zero_def state_defs stage_defs input_defs py_defs Let_def)

text \<open>
  C10, as amended. When the type is not \<open>raw\<close>, no noise file is given and
  \<open>--noise-begin\<close> or \<open>--noise-end\<close> has a value other than zero, every run fails with no
  recording loaded and no noise covariance bound; a run that gets past the forward
  solution fails at \<open>raw.copy()\<close> in line 106 with \<open>AttributeError\<close>, and no library call
  is made after the forward solution was read.
\<close>

theorem noise_bounds_without_recording:
  assumes "type a \<noteq> ''raw''" and "noise_file a = None"
    and "float_bool (noise_begin a) \<or> float_bool (noise_end a)"
  shows "raw (main L a) = None \<and> noise_cov (main L a) = None \<and> exc (main L a) \<noteq> None \<and>
         (exc (with_forward L a) = None \<longrightarrow>
            exc (main L a) = Some (AttributeError, 106) \<and>
            calls (main L a) = calls (with_forward L a))"
proof (cases "exc (with_forward L a) = None")
  case True
  have r: "raw (with_forward L a) = None"
    using loaded_not_raw [OF assms(1)] by simp
  have n: "with_noise_raw L a = raise AttributeError 106 (with_forward L a)"
    using True r assms(2,3)
    by (simp add: with_noise_raw_def step_def noise_recording_def str_bool_def)
  then have "exc (with_noise_raw L a) \<noteq> None"
    by (simp add: raise_def)
  then have "main L a = raise AttributeError 106 (with_forward L a)"
    using n by (simp add: stuck_with_noise_raw)
  then show ?thesis
    using loaded_not_raw [OF assms(1), of L] by (simp add: raise_def)
next
  case False
  then have "main L a = with_forward L a"
    by (rule stuck_with_forward)
  with False show ?thesis
    using loaded_not_raw [OF assms(1), of L] by simp
qed

theorem noise_bounds_without_recording_witness:
  "type cmdline_epochs_end \<noteq> ''raw'' \<and> noise_file cmdline_epochs_end = None \<and>
   float_bool (noise_end cmdline_epochs_end) \<and>
   exc (with_forward lib_ok cmdline_epochs_end) = None \<and>
   raw (main lib_ok cmdline_epochs_end) = None \<and>
   noise_cov (main lib_ok cmdline_epochs_end) = None \<and>
   exc (main lib_ok cmdline_epochs_end) = Some (AttributeError, 106)"
proof -
  have h: "type cmdline_epochs_end \<noteq> ''raw''" "noise_file cmdline_epochs_end = None"
    "float_bool (noise_begin cmdline_epochs_end) \<or> float_bool (noise_end cmdline_epochs_end)"
    by (simp_all add: cmdline_epochs_end_def input_defs float_bool_def)
  have e: "float_bool (noise_end cmdline_epochs_end)"
    by (simp add: cmdline_epochs_end_def input_defs float_bool_def)
  have f: "exc (with_forward lib_ok cmdline_epochs_end) = None"
    by (simp add: cmdline_epochs_end_def state_defs stage_defs input_defs py_defs Let_def)
  from noise_bounds_without_recording [OF h, of lib_ok] h e f show ?thesis
    by blast
qed

subsection \<open>Inverse application\<close>

text \<open>
  C5. Every run that reaches the inverse application (the variable \<open>lambda2\<close> is bound)
  has \<open>lambda2 = 1/9\<close>, that is \<open>snr = 3\<close>, when Epochs or an evoked response is active,
  and \<open>lambda2 = 1\<close>, that is \<open>snr = 1\<close>, when neither is, so in particular when only the
  recording is active; and this is the value the application receives.
\<close>

theorem regularization_parameter:
  assumes "lambda2 (main L a) = Some v"
  shows "v = (if active L (map_option EpochsObj (epochs (main L a))) \<or>
                 active L (map_option EvokedObj (evoked (main L a)))
              then 1 / 9 else 1) \<and>
         (\<forall>x op k. stc (main L a) = Some (Source_estimate x op k) \<longrightarrow> kw_lambda2 k = v)"
proof -
  from assms have l: "lambda2 (applied L a) = Some v" by simp
  have "v = (if active L (map_option EpochsObj (epochs (main L a))) \<or>
                 active L (map_option EvokedObj (evoked (main L a)))
              then 1 / 9 else 1)"
    using applied_lambda2 [OF l] by simp
  moreover have "kw_lambda2 k = v" if "stc (main L a) = Some (Source_estimate x op k)" for x op k
  proof -
    from that have "stc (applied L a) = Some (Source_estimate x op k)" by simp
    from applied_stc [OF this] l show ?thesis by simp
  qed
  ultimately show ?thesis by blast
qed

theorem regularization_parameter_witness:
  "(let s = main lib_ok (cmdline\<lparr>type := ''epochs''\<rparr>) in
      lambda2 s = Some (1 / 9) \<and>
      1 / 9 = (if active lib_ok (map_option EpochsObj (epochs s)) \<or>
                  active lib_ok (map_option EvokedObj (evoked s))
               then 1 / 9 else (1 :: real)) \<and>
      (\<forall>x op k. stc s = Some (Source_estimate x op k) \<longrightarrow> kw_lambda2 k = 1 / 9)) \<and>
   (let s = main lib_ok (cmdline\<lparr>noise_file := Some ''noise.fif''\<rparr>) in
      lambda2 s = Some 1 \<and>
      1 = (if active lib_ok (map_option EpochsObj (epochs s)) \<or>
              active lib_ok (map_option EvokedObj (evoked s))
           then 1 / 9 else (1 :: real)) \<and>
      (\<forall>x op k. stc s = Some (Source_estimate x op k) \<longrightarrow> kw_lambda2 k = 1))"
proof -
  have e: "lambda2 (main lib_ok (cmdline\<lparr>type := ''epochs''\<rparr>)) = Some (1 / 9)"
    by (simp add: state_defs stage_defs input_defs py_defs Let_def)
  have r: "lambda2 (main lib_ok (cmdline\<lparr>noise_file := Some ''noise.fif''\<rparr>)) = Some 1"
    by (simp add: state_defs stage_defs input_defs py_defs Let_def)
  show ?thesis
    unfolding Let_def
    using e r regularization_parameter [OF e] regularization_parameter [OF r] by blast
qed

subsection \<open>The primary representation\<close>

text \<open>
  C8. The claim: wherever any of the three representations could apply (metadata,
  time window, inverse application) one is chosen in the order evoked, epochs, raw. On an
  Epochs file the averaged response is there and the order evoked, epochs, raw chooses it,
  but the metadata and the time window are taken from the Epochs: lines 118 and 123
  evaluate \<open>raw or epochs or evoked\<close>.
\<close>

theorem metadata_taken_from_epochs:
  "evoked_first lib_ok (main lib_ok cmdline_epochs) =
     Some (EvokedObj (Averaged (Epochs_read ''in.fif''))) \<and>
   info (main lib_ok cmdline_epochs) = Some (Info (EpochsObj (Epochs_read ''in.fif''))) \<and>
   Time_as_index (EpochsObj (Epochs_read ''in.fif'')) None None
     \<in> set (calls (main lib_ok cmdline_epochs))"
  by (simp add: cmdline_epochs_def evoked_first_def active_def state_defs stage_defs input_defs
      py_defs Let_def)

text \<open>
  C8, as amended. In every run, the metadata of line 118 and the time window of line 123
  come from one representation, chosen in the order raw, epochs, evoked; the inverse
  application of line 124 is on one representation, chosen in the order evoked, epochs,
  raw.
\<close>

theorem representation_priority:
  "(\<forall>i. info (main L a) = Some i \<longrightarrow> map_option Info (raw_first L (main L a)) = Some i) \<and>
   (\<forall>w. window (main L a) = Some w \<longrightarrow>
      (\<exists>x. raw_first L (main L a) = Some x \<and>
           w = (time_as_index L x (begin_t a), time_as_index L x (end_t a)))) \<and>
   (\<forall>x op k. stc (main L a) = Some (Source_estimate x op k) \<longrightarrow>
      evoked_first L (main L a) = Some x)"
proof -
  have r1: "raw_first L (main L a) = raw_first L (with_noise_cov L a)"
    by (rule raw_first_cong) simp_all
  have r2: "raw_first L (main L a) = raw_first L (with_inv_op L a)"
    by (rule raw_first_cong) simp_all
  have r3: "evoked_first L (main L a) = evoked_first L (with_inv_op L a)"
    by (rule evoked_first_cong) simp_all
  have "map_option Info (raw_first L (main L a)) = Some i" if "info (main L a) = Some i" for i
    using that with_inv_op_info [of L a i] by (simp add: r1)
  moreover have "\<exists>x. raw_first L (main L a) = Some x \<and>
           w = (time_as_index L x (begin_t a), time_as_index L x (end_t a))"
    if "window (main L a) = Some w" for w
    using that applied_window [of L a w] by (simp add: r2)
  moreover have "evoked_first L (main L a) = Some x"
    if "stc (main L a) = Some (Source_estimate x op k)" for x op k
    using that applied_stc [of L a x op k] by (simp add: r3)
  ultimately show ?thesis
    by blast
qed

theorem representation_priority_witness:
  "info (main lib_ok cmdline_epochs) = Some (Info (EpochsObj (Epochs_read ''in.fif''))) \<and>
   raw_first lib_ok (main lib_ok cmdline_epochs) = Some (EpochsObj (Epochs_read ''in.fif'')) \<and>
   stc (main lib_ok cmdline_epochs) \<noteq> None \<and>
   evoked_first lib_ok (main lib_ok cmdline_epochs) =
     Some (EvokedObj (Averaged (Epochs_read ''in.fif'')))"
proof -
  have i: "info (main lib_ok cmdline_epochs) = Some (Info (EpochsObj (Epochs_read ''in.fif'')))"
    by (simp add: cmdline_epochs_def state_defs stage_defs input_defs py_defs Let_def)
  have s: "\<exists>op k. stc (main lib_ok cmdline_epochs) =
             Some (Source_estimate (EvokedObj (Averaged (Epochs_read ''in.fif''))) op k)"
    by (simp add: cmdline_epochs_def state_defs stage_defs input_defs py_defs Let_def)
  from representation_priority [of lib_ok cmdline_epochs] i s show ?thesis
    by (cases "raw_first lib_ok (main lib_ok cmdline_epochs)") auto
qed

end
